theory Spec2Isabelle
  imports Main
begin

section \<open>The command layer of the text MOBA (src/commands.cpp)\<close>

text \<open>
  The ten command handlers of \<^verbatim>\<open>commands.cpp\<close> are embedded one by one. Each
  \<^verbatim>\<open>exec(args)\<close> becomes a function from the session state and the argument vector to
  an outcome and the new session state.

  The classes the handlers talk to (\<^verbatim>\<open>Character\<close>, \<^verbatim>\<open>MapNode\<close>, \<^verbatim>\<open>Skill\<close>,
  \<^verbatim>\<open>CharacterGroups\<close> and the body of \<^verbatim>\<open>TextMoba\<close>) are only forward-declared in
  \<^verbatim>\<open>text_moba.h\<close>. Their member functions are therefore parameters of the model: the
  record \<open>TextMoba\<close> below holds one function per member function that the handlers
  call, over an arbitrary world type \<open>'w\<close>. A theorem stated for every such record holds
  whatever these classes do.
\<close>

subsection \<open>Enumerations of text\_moba.h\<close>

datatype Team = BLUE | RED | NEUTRAL

datatype Place = BACK | FRONT

text \<open>
  The targeting mode of a skill. The handlers compare it with \<^verbatim>\<open>SINGLE\<close> and
  \<^verbatim>\<open>ANY_ROW\<close> and treat every other value alike; the enumeration itself is declared in
  \<^verbatim>\<open>skill.h\<close>, so the remaining values are one constructor here.
\<close>

datatype SkillTarget = SINGLE | ANY_ROW | OTHER_TARGET

text \<open>Shared pointers are identities: a character, a map node and a skill are numbers.\<close>

type_synonym cid = nat
type_synonym nid = nat
type_synonym sid = nat

subsection \<open>Helpers of commands.cpp\<close>

text \<open>\<^verbatim>\<open>join(range, joinString)\<close>: the elements, separated by the join string.\<close>

fun join :: "string list \<Rightarrow> string \<Rightarrow> string" where
  "join [] sep = []"
| "join [x] sep = x"
| "join (x # y # xs) sep = x @ sep @ join (y # xs) sep"

text \<open>
  \<^verbatim>\<open>std::tolower\<close> in the C locale: the 26 upper-case letters are mapped, every other
  value is returned as it is.
\<close>

definition tolower :: "char \<Rightarrow> char" where
  "tolower c =
     (case map_of (zip ''ABCDEFGHIJKLMNOPQRSTUVWXYZ'' ''abcdefghijklmnopqrstuvwxyz'') c of
        Some l \<Rightarrow> l
      | None \<Rightarrow> c)"

text \<open>
  \<^verbatim>\<open>lower.append(buffer)\<close> appends a C string: the bytes of the buffer before its first
  NUL.
\<close>

definition c_str :: "string \<Rightarrow> string" where
  "c_str buffer = takeWhile (\<lambda>c. c \<noteq> CHR 0x00) buffer"

text \<open>
  \<^verbatim>\<open>toLower\<close> reads the string code point by code point. Each one is lowered, encoded
  into the buffer, terminated there with a NUL, and the buffer is appended as a C string:
  the code point 0 adds nothing to the result. A code point above 127 is left alone by
  \<^verbatim>\<open>std::tolower\<close> and the bytes of its UTF-8 sequence are not NUL, so they are copied
  as they are; the model therefore works byte by byte.
\<close>

definition toLower :: "string \<Rightarrow> string" where
  "toLower str = concat (map (\<lambda>c. c_str [tolower c, CHR 0x00]) str)"

subsection \<open>std::stoi\<close>

text \<open>
  \<^verbatim>\<open>std::stoi(str)\<close> with base 10, as the standard defines it through \<^verbatim>\<open>strtol\<close>:
  leading white space is skipped, one sign is accepted, then the longest run of decimal
  digits is read and whatever follows is ignored. With no digit there the call throws
  \<^verbatim>\<open>std::invalid_argument\<close>; with a value outside the 32-bit \<^verbatim>\<open>int\<close> it throws
  \<^verbatim>\<open>std::out_of_range\<close>.
\<close>

datatype stoi_error = InvalidArgument | OutOfRange

definition isspace :: "char \<Rightarrow> bool" where
  "isspace c = (c \<in> set [CHR '' '', CHR 0x09, CHR 0x0A, CHR 0x0B, CHR 0x0C, CHR 0x0D])"

definition isdigit :: "char \<Rightarrow> bool" where
  "isdigit c = (c \<in> set ''0123456789'')"

definition digit_value :: "char \<Rightarrow> int" where
  "digit_value c = int (of_char c) - 48"

definition digits_value :: "string \<Rightarrow> int" where
  "digits_value ds = foldl (\<lambda>acc c. 10 * acc + digit_value c) 0 ds"

definition stoi :: "string \<Rightarrow> stoi_error + int" where
  "stoi str =
     (let s1 = dropWhile isspace str;
          neg = (s1 \<noteq> [] \<and> hd s1 = CHR ''-'');
          s2 = (if s1 \<noteq> [] \<and> (hd s1 = CHR ''-'' \<or> hd s1 = CHR ''+'') then tl s1 else s1);
          ds = takeWhile isdigit s2;
          v = (if neg then - digits_value ds else digits_value ds)
      in if ds = [] then Inl InvalidArgument
         else if v < - (2 ^ 31) \<or> 2 ^ 31 - 1 < v then Inl OutOfRange
         else Inr v)"

text \<open>
  \<^verbatim>\<open>unsigned index = std::stoi(...)\<close>: the conversion of an \<^verbatim>\<open>int\<close> to a 32-bit
  \<^verbatim>\<open>unsigned\<close> is the value modulo \<open>2 ^ 32\<close>.
\<close>

definition to_unsigned :: "int \<Rightarrow> nat" where
  "to_unsigned v = nat (v mod 2 ^ 32)"

subsection \<open>The console and the session state\<close>

text \<open>
  \<^verbatim>\<open>print(...)\<close> takes strings and numbers and writes them as one line. A line is kept
  as the list of its arguments.
\<close>

datatype item = S string | N int

type_synonym line = "item list"

text \<open>
  The calls a handler makes to a state-changing member function, in the order it makes
  them. \<open>WriteMana c v\<close> is the assignment to the public field \<^verbatim>\<open>_mana\<close> of character
  \<open>c\<close>, with the value stored.
\<close>

datatype call =
    CallNextTurn
  | CallMoveCharacter cid nid
  | CallPlaceCharacter cid Place
  | CallAttack cid cid
  | WriteMana cid int
  | CallUseOn sid "cid list"
  | CallRestart string
  | CallExecCommand string

text \<open>
  The session: the game world, the lines printed so far, the calls made so far, and the
  field \<^verbatim>\<open>_readClass\<close> of the one \<^verbatim>\<open>RestartCommand\<close> object.
\<close>

record 'w session =
  world :: 'w
  printed :: "line list"
  calls :: "call list"
  readClass :: bool

definition print :: "'w session \<Rightarrow> line \<Rightarrow> 'w session" where
  "print s l = s\<lparr>printed := printed s @ [l]\<rparr>"

text \<open>
  How an \<^verbatim>\<open>exec\<close> ends: it returns its boolean, or the \<^verbatim>\<open>std::out_of_range\<close> of
  \<^verbatim>\<open>std::stoi\<close> leaves it (only \<^verbatim>\<open>std::invalid_argument\<close> is caught), or it reads
  \<^verbatim>\<open>args[0]\<close> of an empty vector.
\<close>

datatype outcome = Returns bool | Throws_out_of_range | Undefined_behaviour

text \<open>The ten handlers, with the names and the description their constructors set.\<close>

datatype command = Help | Info | Look | Directions | Wait | Go | Move | Attack | Use | Restart

fun names :: "command \<Rightarrow> string list" where
  "names Help = [''help'', ''h'', ''?'']"
| "names Info = [''info'', ''i'']"
| "names Look = [''look'', ''l'']"
| "names Directions = [''directions'', ''dir'', ''d'']"
| "names Wait = [''wait'', ''w'']"
| "names Go = [''go'', ''g'']"
| "names Move = [''move'', ''m'']"
| "names Attack = [''attack'', ''a'']"
| "names Use = [''use'', ''u'']"
| "names Restart = [''restart'']"

definition nl :: string where
  "nl = [CHR 0x0A]"

fun desc :: "command \<Rightarrow> string" where
  \<open>desc Help = ''  Prints this help message.''\<close>
| \<open>desc Info = ''  Information about game mechanics.''\<close>
| \<open>desc Look = ''  Look around you. Describe the place and what / who is'' @ nl @
     ''  here. With a parameter, look at a specific object here.'' @ nl @
     ''  Example: look tower (describe a tower)''\<close>
| \<open>desc Directions = ''  List the destinations you can reach from here.''\<close>
| \<open>desc Wait = ''  Do nothing until next turn.''\<close>
| \<open>desc Go = ''  Walk in a given direction. Type "directions" to see where'' @ nl @
     ''  you can go. Example: go red (go toward the red base)''\<close>
| \<open>desc Move = ''  Take "front" or "back" in parameter. Move your'' @ nl @
     ''  character to the front/back row.''\<close>
| \<open>desc Attack = ''  Attack the enemy number n, where n is the number you can'' @ nl @
     ''  see when you run the command look.''\<close>
| \<open>desc Use = ''  Use a skill. Some skills need a <character-number> or a'' @ nl @
     ''  row (front or back) in parameter. Example: '' @ nl @
     ''    use bomb front''\<close>
| \<open>desc Restart = ''  Restart the game.''\<close>

subsection \<open>The collaborators\<close>

text \<open>
  One field per member function the handlers call. The queries read the world; the last
  seven fields change it. \<open>node\<close> is \<^verbatim>\<open>Character::node()\<close>, which the handlers
  dereference without a test, and \<open>distanceBetween w n a b\<close> is
  \<^verbatim>\<open>n->characterGroups().distanceBetween(a, b)\<close>. The three overloads of
  \<^verbatim>\<open>Skill::targets\<close> are three fields. Health, mana, range and distance are integers:
  their C++ types are declared in headers that are not part of the sources at hand.
\<close>

record 'w TextMoba =
  player :: "'w \<Rightarrow> cid"
  isAlive :: "'w \<Rightarrow> cid \<Rightarrow> bool"
  node :: "'w \<Rightarrow> cid \<Rightarrow> nid"
  team :: "'w \<Rightarrow> cid \<Rightarrow> Team"
  place :: "'w \<Rightarrow> cid \<Rightarrow> Place"
  placeName :: "'w \<Rightarrow> cid \<Rightarrow> string"
  name :: "'w \<Rightarrow> cid \<Rightarrow> bool \<Rightarrow> string"
  level :: "'w \<Rightarrow> cid \<Rightarrow> int"
  hp :: "'w \<Rightarrow> cid \<Rightarrow> int"
  maxHP :: "'w \<Rightarrow> cid \<Rightarrow> int"
  mana :: "'w \<Rightarrow> cid \<Rightarrow> int"
  range_of :: "'w \<Rightarrow> cid \<Rightarrow> int"
  skill :: "'w \<Rightarrow> cid \<Rightarrow> string \<Rightarrow> sid option"
  nodeName :: "'w \<Rightarrow> nid \<Rightarrow> string"
  characters :: "'w \<Rightarrow> nid \<Rightarrow> cid list"
  characterAt :: "'w \<Rightarrow> nid \<Rightarrow> nat \<Rightarrow> cid option"
  destination :: "'w \<Rightarrow> nid \<Rightarrow> string \<Rightarrow> nid option"
  paths :: "'w \<Rightarrow> nid \<Rightarrow> (nid \<times> string list) list"
  distanceBetween :: "'w \<Rightarrow> nid \<Rightarrow> cid \<Rightarrow> cid \<Rightarrow> int"
  usable :: "'w \<Rightarrow> sid \<Rightarrow> bool"
  target :: "'w \<Rightarrow> sid \<Rightarrow> SkillTarget"
  targetTeam :: "'w \<Rightarrow> sid \<Rightarrow> Team"
  manaCost :: "'w \<Rightarrow> sid \<Rightarrow> int"
  targetsOf :: "'w \<Rightarrow> sid \<Rightarrow> cid \<Rightarrow> cid list"
  targetsRow :: "'w \<Rightarrow> sid \<Rightarrow> Place \<Rightarrow> cid list"
  targetsAll :: "'w \<Rightarrow> sid \<Rightarrow> cid list"
  commands :: "'w \<Rightarrow> command list"
  infos :: "'w \<Rightarrow> (string \<times> string) list"
  nextTurn :: "'w \<Rightarrow> 'w"
  moveCharacter :: "'w \<Rightarrow> cid \<Rightarrow> nid \<Rightarrow> 'w"
  placeCharacter :: "'w \<Rightarrow> cid \<Rightarrow> Place \<Rightarrow> 'w"
  attack :: "'w \<Rightarrow> cid \<Rightarrow> cid \<Rightarrow> 'w"
  setMana :: "'w \<Rightarrow> cid \<Rightarrow> int \<Rightarrow> 'w"
  useOn :: "'w \<Rightarrow> sid \<Rightarrow> cid list \<Rightarrow> 'w"
  restart :: "'w \<Rightarrow> string \<Rightarrow> 'w"

text \<open>A call changes the world and is written to the log.\<close>

definition do_call :: "'w session \<Rightarrow> call \<Rightarrow> 'w \<Rightarrow> 'w session" where
  "do_call s c w' = s\<lparr>world := w', calls := calls s @ [c]\<rparr>"

definition dead_message :: line where
  \<open>dead_message = [S ''You are dead... Please use the command "wait" until you respawn.'']\<close>

subsection \<open>The handlers that only print\<close>

definition HelpCommand_exec ::
  "'w TextMoba \<Rightarrow> 'w session \<Rightarrow> string list \<Rightarrow> outcome \<times> 'w session" where
  "HelpCommand_exec tm s args =
     (Returns True,
      foldl (\<lambda>s' cmd. print (print s' [S (join (names cmd) '', '')]) [S (desc cmd)])
        s (commands tm (world s)))"

definition InfoCommand_exec ::
  "'w TextMoba \<Rightarrow> 'w session \<Rightarrow> string list \<Rightarrow> outcome \<times> 'w session" where
  \<open>InfoCommand_exec tm s args =
     (if length args \<noteq> 2 then
        (case args of
           [] \<Rightarrow> (Undefined_behaviour, s)
         | a0 # _ \<Rightarrow>
             (Returns True,
              foldl (\<lambda>s' pair. print s' [S ''  '', S (fst pair)])
                (print s [S ''Available topic (use "'', S a0, S ''" <topic>":''])
                (infos tm (world s))))
      else
        (case map_of (infos tm (world s)) (args ! 1) of
           Some info \<Rightarrow> (Returns True, print s [S info])
         | None \<Rightarrow> (Returns True, print s [S ''Unknown topic "'', S (args ! 1), S ''".''])))\<close>

definition LookCommand_exec ::
  "'w TextMoba \<Rightarrow> 'w session \<Rightarrow> string list \<Rightarrow> outcome \<times> 'w session" where
  "LookCommand_exec tm s args =
     (let w = world s; p = player tm w in
      if \<not> isAlive tm w p then (Returns True, print s dead_message)
      else if length args = 1 then
        (let n = node tm w p;
             s1 = print s [S ''You are at '', S (nodeName tm w n), S ''.''];
             s2 = print s1 [S ''Here, there is'']
         in (Returns True,
             foldl (\<lambda>s' ic. print s'
                      [S ''  '', N (int (fst ic)), S '': '',
                       S ''['', S (placeName tm w (snd ic)), S ''] '', S (name tm w (snd ic) False),
                       S '' (lvl '', N (level tm w (snd ic) + 1), S '', '', N (hp tm w (snd ic)),
                       S '' / '', N (maxHP tm w (snd ic)), S '')'',
                       S '' dist: '', N (distanceBetween tm w n p (snd ic))])
               s2 (enumerate 0 (characters tm w n))))
      else (Returns True, s))"

definition DirectionsCommand_exec ::
  "'w TextMoba \<Rightarrow> 'w session \<Rightarrow> string list \<Rightarrow> outcome \<times> 'w session" where
  "DirectionsCommand_exec tm s args =
     (let w = world s; p = player tm w in
      if \<not> isAlive tm w p then (Returns True, print s dead_message)
      else
        (Returns True,
         foldl (\<lambda>s' pair. print s'
                  [S ''  '', S (join (snd pair) '', ''), S '': toward '', S (nodeName tm w (fst pair))])
           (print s [S ''From here, you can go toward:''])
           (paths tm w (node tm w p))))"

subsection \<open>The handlers that change the world\<close>

definition call_nextTurn :: "'w TextMoba \<Rightarrow> 'w session \<Rightarrow> 'w session" where
  "call_nextTurn tm s = do_call s CallNextTurn (nextTurn tm (world s))"

definition call_moveCharacter :: "'w TextMoba \<Rightarrow> 'w session \<Rightarrow> cid \<Rightarrow> nid \<Rightarrow> 'w session" where
  "call_moveCharacter tm s c dest =
     do_call s (CallMoveCharacter c dest) (moveCharacter tm (world s) c dest)"

definition call_placeCharacter :: "'w TextMoba \<Rightarrow> 'w session \<Rightarrow> cid \<Rightarrow> Place \<Rightarrow> 'w session" where
  "call_placeCharacter tm s c pl =
     do_call s (CallPlaceCharacter c pl) (placeCharacter tm (world s) c pl)"

definition call_attack :: "'w TextMoba \<Rightarrow> 'w session \<Rightarrow> cid \<Rightarrow> cid \<Rightarrow> 'w session" where
  "call_attack tm s c t = do_call s (CallAttack c t) (attack tm (world s) c t)"

text \<open>\<^verbatim>\<open>c->_mana -= cost\<close>: the field is read, the cost subtracted, the result stored.\<close>

definition subtract_mana :: "'w TextMoba \<Rightarrow> 'w session \<Rightarrow> cid \<Rightarrow> int \<Rightarrow> 'w session" where
  "subtract_mana tm s c cost =
     do_call s (WriteMana c (mana tm (world s) c - cost))
       (setMana tm (world s) c (mana tm (world s) c - cost))"

definition call_useOn :: "'w TextMoba \<Rightarrow> 'w session \<Rightarrow> sid \<Rightarrow> cid list \<Rightarrow> 'w session" where
  "call_useOn tm s sk ts = do_call s (CallUseOn sk ts) (useOn tm (world s) sk ts)"

definition call_restart :: "'w TextMoba \<Rightarrow> 'w session \<Rightarrow> string \<Rightarrow> 'w session" where
  "call_restart tm s className = do_call s (CallRestart className) (restart tm (world s) className)"

definition WaitCommand_exec ::
  "'w TextMoba \<Rightarrow> 'w session \<Rightarrow> string list \<Rightarrow> outcome \<times> 'w session" where
  "WaitCommand_exec tm s args = (Returns True, call_nextTurn tm s)"

text \<open>
  Modelled from the spec: \<^verbatim>\<open>TextMoba::execCommand\<close>, whose body is not among the sources.
  The spec (4.5) has it split the line into tokens, look the first token up in the alias
  table and call the \<^verbatim>\<open>exec\<close> of the command found with the tokens. \<^verbatim>\<open>GoCommand\<close>
  calls it with the literal \<^verbatim>\<open>"look"\<close>, the first name of \<^verbatim>\<open>LookCommand\<close>; the tokens
  are that one word. The boolean it returns is dropped by the caller.
\<close>

definition execCommand_look :: "'w TextMoba \<Rightarrow> 'w session \<Rightarrow> 'w session" where
  "execCommand_look tm s =
     snd (LookCommand_exec tm (s\<lparr>calls := calls s @ [CallExecCommand ''look'']\<rparr>) [''look''])"

definition GoCommand_exec ::
  "'w TextMoba \<Rightarrow> 'w session \<Rightarrow> string list \<Rightarrow> outcome \<times> 'w session" where
  \<open>GoCommand_exec tm s args =
     (let w = world s; p = player tm w in
      if \<not> isAlive tm w p then (Returns True, print s dead_message)
      else if length args \<noteq> 2 then
        (let s1 = print s [S ''I don't understand where you want to go. Type''] in
         case args of
           [] \<Rightarrow> (Undefined_behaviour, s1)
         | a0 # _ \<Rightarrow> (Returns True, print s1 [S ''  '', S a0, S '' <direction>'']))
      else
        (let dir = toLower (args ! 1);
             n = node tm w p
         in case destination tm w n dir of
              Some dest \<Rightarrow>
                (let s1 = call_moveCharacter tm s p dest;
                     s2 = execCommand_look tm s1;
                     s3 = call_nextTurn tm s2
                 in (Returns True, s3))
            | None \<Rightarrow> (Returns True, print s [S ''Unknown direction "'', S dir, S ''"''])))\<close>

definition MoveCommand_exec ::
  "'w TextMoba \<Rightarrow> 'w session \<Rightarrow> string list \<Rightarrow> outcome \<times> 'w session" where
  "MoveCommand_exec tm s args =
     (let w = world s; p = player tm w in
      if \<not> isAlive tm w p then (Returns True, print s dead_message)
      else if length args \<noteq> 2 \<or> (args ! 1 \<noteq> ''front'' \<and> args ! 1 \<noteq> ''back'') then
        (let s1 = print s [S ''I don't understand where you want to go. Type''] in
         case args of
           [] \<Rightarrow> (Undefined_behaviour, s1)
         | a0 # _ \<Rightarrow> (Returns True, print s1 [S ''  '', S a0, S '' [front|back]'']))
      else
        (let pl = (if args ! 1 = ''front'' then FRONT else BACK) in
         if pl = place tm w p then
           (Returns True, print s [S ''You already are at the '', S (args ! 1), S '' row.''])
         else
           (let s1 = call_placeCharacter tm s p pl;
                s2 = call_nextTurn tm s1
            in (Returns True, s2))))"

definition AttackCommand_exec ::
  "'w TextMoba \<Rightarrow> 'w session \<Rightarrow> string list \<Rightarrow> outcome \<times> 'w session" where
  \<open>AttackCommand_exec tm s args =
     (let w = world s; p = player tm w in
      if \<not> isAlive tm w p then (Returns True, print s dead_message)
      else if length args \<noteq> 2 then
        (let s1 = print s [S ''I don't understand who you want to attack. Type''] in
         case args of
           [] \<Rightarrow> (Undefined_behaviour, s1)
         | a0 # _ \<Rightarrow>
             (let s2 = print s1 [S ''  '', S a0, S '' <character-number>''];
                  s3 = print s2 [S ''where <character-number> is the number displayed''];
                  s4 = print s3 [S ''when you type "look".'']
              in (Returns True, s4)))
      else
        (case stoi (args ! 1) of
           Inl InvalidArgument \<Rightarrow>
             (Returns True, print s [S ''I don't understand who you try to attack.''])
         | Inl OutOfRange \<Rightarrow> (Throws_out_of_range, s)
         | Inr v \<Rightarrow>
             (let index = to_unsigned v in
              case characterAt tm w (node tm w p) index of
                None \<Rightarrow> (Returns True, print s [S ''Invalid target.''])
              | Some t \<Rightarrow>
                  if \<not> isAlive tm w t then (Returns True, print s [S ''Invalid target.''])
                  else if team tm w t = team tm w p then
                    (Returns True, print s [S ''You cannot attack allies.''])
                  else if distanceBetween tm w (node tm w p) p t > range_of tm w p then
                    (Returns True, print s [S ''Target out of range.''])
                  else
                    (let s1 = call_attack tm s p t;
                         s2 = call_nextTurn tm s1
                     in (Returns True, s2)))))\<close>

text \<open>
  The middle of \<^verbatim>\<open>UseCommand::exec\<close>, from the declaration of \<^verbatim>\<open>targets\<close> to the
  test that it is not empty: either the handler returns early (\<open>Inl\<close>, with how it ends
  and the session after its message) or the target vector is filled (\<open>Inr\<close>).
\<close>

definition UseCommand_targets ::
  "'w TextMoba \<Rightarrow> 'w session \<Rightarrow> sid \<Rightarrow> string list \<Rightarrow> (outcome \<times> 'w session) + cid list" where
  \<open>UseCommand_targets tm s sk args =
     (let w = world s; p = player tm w in
      if target tm w sk = SINGLE then
        (if length args \<noteq> 3 then
           Inl (Returns True,
                print s [S (''This skill targets a single foe and so takes a '' @
                            ''<character-number> in parameter.'')])
         else
           (case stoi (args ! 2) of
              Inl InvalidArgument \<Rightarrow>
                Inl (Returns True, print s [S ''I don't understand who you're trying to attack.''])
            | Inl OutOfRange \<Rightarrow> Inl (Throws_out_of_range, s)
            | Inr v \<Rightarrow>
                (let charIndex = to_unsigned v in
                 case characterAt tm w (node tm w p) charIndex of
                   None \<Rightarrow> Inl (Returns True, print s [S ''Invalid target.''])
                 | Some t \<Rightarrow>
                     if \<not> isAlive tm w t then Inl (Returns True, print s [S ''Invalid target.''])
                     else if team tm w t \<noteq> targetTeam tm w sk then
                       Inl (Returns True, print s [S ''Target is in the wrong team.''])
                     else
                       (let targets = targetsOf tm w sk t in
                        if targets = [] then
                          Inl (Returns True, print s [S ''Target is out-of-range.''])
                        else Inr targets))))
      else if target tm w sk = ANY_ROW then
        (if length args \<noteq> 3 \<or> (args ! 2 \<noteq> ''front'' \<and> args ! 2 \<noteq> ''back'') then
           Inl (Returns True,
                print s [S (''This skill target a row so you need to choose between '' @
                            '' "front" or "back". The row must be in range.'')])
         else
           (let pl = (if args ! 2 = ''front'' then FRONT else BACK) in
            Inr (targetsRow tm w sk pl)))
      else Inr (targetsAll tm w sk))\<close>

definition UseCommand_exec ::
  "'w TextMoba \<Rightarrow> 'w session \<Rightarrow> string list \<Rightarrow> outcome \<times> 'w session" where
  \<open>UseCommand_exec tm s args =
     (let w = world s; p = player tm w in
      if \<not> isAlive tm w p then (Returns True, print s dead_message)
      else if length args < 2 then
        (let s1 = print s [S ''I don't understand what you try to use. Type''] in
         case args of
           [] \<Rightarrow> (Undefined_behaviour, s1)
         | a0 # _ \<Rightarrow>
             (Returns True,
              print s1 [S ''  '', S a0, S '' <skill-name> [<character-number>|front|back]'']))
      else
        (case skill tm w p (args ! 1) of
           None \<Rightarrow> (Returns True, print s [S ''You don't have a skill called '', S (args ! 1)])
         | Some sk \<Rightarrow>
             if \<not> usable tm w sk then
               (Returns True, print s [S ''You can't use this skill right now.''])
             else
               (case UseCommand_targets tm s sk args of
                  Inl early \<Rightarrow> early
                | Inr targets \<Rightarrow>
                    if targets = [] then (Returns True, print s [S ''No targets in range.''])
                    else
                      (let s1 = subtract_mana tm s p (manaCost tm w sk);
                           s2 = call_useOn tm s1 sk targets;
                           s3 = call_nextTurn tm s2
                       in (Returns True, s3)))))\<close>

text \<open>
  \<^verbatim>\<open>RestartCommand::exec\<close>. The chain that sets \<^verbatim>\<open>className\<close> either yields the name
  (\<open>Inr\<close>) or returns from the handler (\<open>Inl\<close>).
\<close>

definition RestartCommand_exec ::
  "'w TextMoba \<Rightarrow> 'w session \<Rightarrow> string list \<Rightarrow> outcome \<times> 'w session" where
  "RestartCommand_exec tm s args =
     (if \<not> readClass s \<and> length args = 1 then
        (Returns False,
         (print s [S ''Choose your class: [ warrior, ranger, mage ]''])\<lparr>readClass := True\<rparr>)
      else
        (case
           (if \<not> readClass s \<and> length args = 2 then Inr (args ! 1)
            else if readClass s \<and> length args = 1 then Inr (args ! 0)
            else if \<not> readClass s then
              (case args of
                 [] \<Rightarrow> Inl (Undefined_behaviour, s)
               | a0 # _ \<Rightarrow> Inl (Returns True, print s [S a0, S '' takes 0 or 1 parameter.'']))
            else
              Inl (Returns False,
                   print s [S ''Please enter one class name: warrior, ranger or mage.'']))
         of
           Inl early \<Rightarrow> early
         | Inr className \<Rightarrow>
             if className = ''warrior'' \<or> className = ''ranger'' \<or> className = ''mage'' then
               (Returns True, (call_restart tm s className)\<lparr>readClass := False\<rparr>)
             else
               (let s1 = print s [S ''Unknown class name '', S className];
                    s2 = print s1 [S ''Please enter one class name: warrior, ranger or mage.'']
                in (Returns (\<not> readClass s), s2))))"

text \<open>The virtual call \<^verbatim>\<open>cmd->exec(args)\<close>.\<close>

fun exec :: "'w TextMoba \<Rightarrow> command \<Rightarrow> 'w session \<Rightarrow> string list \<Rightarrow> outcome \<times> 'w session" where
  "exec tm Help s args = HelpCommand_exec tm s args"
| "exec tm Info s args = InfoCommand_exec tm s args"
| "exec tm Look s args = LookCommand_exec tm s args"
| "exec tm Directions s args = DirectionsCommand_exec tm s args"
| "exec tm Wait s args = WaitCommand_exec tm s args"
| "exec tm Go s args = GoCommand_exec tm s args"
| "exec tm Move s args = MoveCommand_exec tm s args"
| "exec tm Attack s args = AttackCommand_exec tm s args"
| "exec tm Use s args = UseCommand_exec tm s args"
| "exec tm Restart s args = RestartCommand_exec tm s args"

text \<open>The number of turns a session has advanced: the calls of \<^verbatim>\<open>nextTurn\<close> in its log.\<close>

definition turns :: "'w session \<Rightarrow> nat" where
  "turns s = length (filter (\<lambda>c. c = CallNextTurn) (calls s))"

subsection \<open>A reference world\<close>

text \<open>
  The theorems below are stated for every record of collaborators. To run the handlers
  on concrete input, this subsection gives one such record, written from the spec's data
  model (section 3) and component design (section 4), since the classes themselves are
  not among the sources. Tables are lists indexed by identity.
\<close>

record Character =
  c_name :: string
  c_team :: Team
  c_place :: Place
  c_level :: int
  c_hp :: int
  c_maxHP :: int
  c_mana :: int
  c_range :: int
  c_damage :: int
  c_node :: nid
  c_skills :: "(string \<times> sid) list"

record MapNode =
  n_name :: string
  n_exits :: "(string \<times> nid) list"
  n_characters :: "cid list"

record Skill =
  k_owner :: cid
  k_target :: SkillTarget
  k_targetTeam :: Team
  k_manaCost :: int
  k_range :: int
  k_power :: int
  k_cooldown :: nat

record World =
  characterTable :: "Character list"
  nodeTable :: "MapNode list"
  skillTable :: "Skill list"
  thePlayer :: cid
  turn :: nat

definition chr :: "World \<Rightarrow> cid \<Rightarrow> Character" where
  "chr w c = characterTable w ! c"

text \<open>
  Modelled from the spec: \<^verbatim>\<open>Character::isAlive\<close> (4.3): a character is dead once its
  health has reached 0.
\<close>

definition w_isAlive :: "World \<Rightarrow> cid \<Rightarrow> bool" where
  "w_isAlive w c = (0 < c_hp (chr w c))"

text \<open>
  Modelled from the spec: \<^verbatim>\<open>CharacterGroups::distanceBetween\<close> (3): same team and same
  row 0, same team and different rows 1; opposing teams 1 when both are in front, 2 when
  one is in front and one in the back, 3 when both are in the back.
\<close>

definition w_distanceBetween :: "World \<Rightarrow> nid \<Rightarrow> cid \<Rightarrow> cid \<Rightarrow> int" where
  "w_distanceBetween w n a b =
     (if c_team (chr w a) = c_team (chr w b) then
        (if c_place (chr w a) = c_place (chr w b) then 0 else 1)
      else if c_place (chr w a) = FRONT \<and> c_place (chr w b) = FRONT then 1
      else if c_place (chr w a) = BACK \<and> c_place (chr w b) = BACK then 3
      else 2)"

text \<open>
  Modelled from the spec: \<^verbatim>\<open>MapNode::characterAt\<close> (4.2): the character at a
  zero-based position of the roster, none beyond its size.
\<close>

definition w_characterAt :: "World \<Rightarrow> nid \<Rightarrow> nat \<Rightarrow> cid option" where
  "w_characterAt w n i =
     (let r = n_characters (nodeTable w ! n) in if i < length r then Some (r ! i) else None)"

text \<open>
  Modelled from the spec: \<^verbatim>\<open>MapNode::destination\<close> and \<^verbatim>\<open>MapNode::paths\<close> (4.1): the
  node behind an exit label, none when the node has no such exit; and the destinations,
  each with all the labels that lead to it.
\<close>

definition w_destination :: "World \<Rightarrow> nid \<Rightarrow> string \<Rightarrow> nid option" where
  "w_destination w n dir = map_of (n_exits (nodeTable w ! n)) dir"

definition w_paths :: "World \<Rightarrow> nid \<Rightarrow> (nid \<times> string list) list" where
  "w_paths w n =
     (let ex = n_exits (nodeTable w ! n) in
      map (\<lambda>d. (d, map fst (filter (\<lambda>e. snd e = d) ex))) (remdups (map snd ex)))"

text \<open>
  Modelled from the spec: \<^verbatim>\<open>TextMoba::moveCharacter\<close> (4.6): the character leaves the
  roster of its node, joins the roster of the destination, and its node reference is set.
\<close>

definition w_moveCharacter :: "World \<Rightarrow> cid \<Rightarrow> nid \<Rightarrow> World" where
  "w_moveCharacter w c dest =
     (let src = c_node (chr w c);
          nodes1 = (nodeTable w)[src := (nodeTable w ! src)
                     \<lparr>n_characters := removeAll c (n_characters (nodeTable w ! src))\<rparr>];
          nodes2 = nodes1[dest := (nodes1 ! dest)
                     \<lparr>n_characters := n_characters (nodes1 ! dest) @ [c]\<rparr>]
      in w\<lparr>nodeTable := nodes2,
           characterTable := (characterTable w)[c := (chr w c)\<lparr>c_node := dest\<rparr>]\<rparr>)"

text \<open>
  Modelled from the spec: \<^verbatim>\<open>TextMoba::placeCharacter\<close> (4.6): the row changes, the node
  does not.
\<close>

definition w_placeCharacter :: "World \<Rightarrow> cid \<Rightarrow> Place \<Rightarrow> World" where
  "w_placeCharacter w c pl =
     w\<lparr>characterTable := (characterTable w)[c := (chr w c)\<lparr>c_place := pl\<rparr>]\<rparr>"

text \<open>
  Modelled from the spec: the damage of \<^verbatim>\<open>Character::attack\<close> (4.3) and of a skill:
  health goes down by the amount and stops at 0.
\<close>

definition w_damage :: "World \<Rightarrow> cid \<Rightarrow> int \<Rightarrow> World" where
  "w_damage w t amount =
     w\<lparr>characterTable :=
         (characterTable w)[t := (chr w t)\<lparr>c_hp := max 0 (c_hp (chr w t) - amount)\<rparr>]\<rparr>"

definition w_attack :: "World \<Rightarrow> cid \<Rightarrow> cid \<Rightarrow> World" where
  "w_attack w a t = w_damage w t (c_damage (chr w a))"

definition w_setMana :: "World \<Rightarrow> cid \<Rightarrow> int \<Rightarrow> World" where
  "w_setMana w c v = w\<lparr>characterTable := (characterTable w)[c := (chr w c)\<lparr>c_mana := v\<rparr>]\<rparr>"

text \<open>
  Modelled from the spec: \<^verbatim>\<open>Character::skill\<close> (4.3), the owned skill of that exact
  name, and \<^verbatim>\<open>Skill::usable\<close> (4.4), false while the cooldown runs or the caster lacks
  the mana.
\<close>

definition w_skill :: "World \<Rightarrow> cid \<Rightarrow> string \<Rightarrow> sid option" where
  "w_skill w c nm = map_of (c_skills (chr w c)) nm"

definition w_usable :: "World \<Rightarrow> sid \<Rightarrow> bool" where
  "w_usable w sk =
     (k_cooldown (skillTable w ! sk) = 0 \<and>
      k_manaCost (skillTable w ! sk) \<le> c_mana (chr w (k_owner (skillTable w ! sk))))"

text \<open>
  Modelled from the spec: the three protocols of \<^verbatim>\<open>Skill::targets\<close> (4.4). With one
  character: that character if it is within the skill's range of the caster, else
  nothing. With a row: the living enemies of that row within range. With no argument:
  the skill's own rule, here the living characters of the target team within range.
\<close>

definition w_inRange :: "World \<Rightarrow> sid \<Rightarrow> cid \<Rightarrow> bool" where
  "w_inRange w sk t =
     (let own = k_owner (skillTable w ! sk) in
      w_distanceBetween w (c_node (chr w own)) own t \<le> k_range (skillTable w ! sk))"

definition w_targetsOf :: "World \<Rightarrow> sid \<Rightarrow> cid \<Rightarrow> cid list" where
  "w_targetsOf w sk t = (if w_inRange w sk t then [t] else [])"

definition w_targetsRow :: "World \<Rightarrow> sid \<Rightarrow> Place \<Rightarrow> cid list" where
  "w_targetsRow w sk pl =
     (let own = k_owner (skillTable w ! sk) in
      filter (\<lambda>c. w_isAlive w c \<and> c_team (chr w c) \<noteq> c_team (chr w own) \<and>
                  c_place (chr w c) = pl \<and> w_inRange w sk c)
        (n_characters (nodeTable w ! c_node (chr w own))))"

definition w_targetsAll :: "World \<Rightarrow> sid \<Rightarrow> cid list" where
  "w_targetsAll w sk =
     (let own = k_owner (skillTable w ! sk) in
      filter (\<lambda>c. w_isAlive w c \<and> c_team (chr w c) = k_targetTeam (skillTable w ! sk) \<and>
                  w_inRange w sk c)
        (n_characters (nodeTable w ! c_node (chr w own))))"

text \<open>
  Modelled from the spec: \<^verbatim>\<open>Skill::useOn\<close> (4.4) applies the skill's effect, here its
  damage, to every target; it takes no mana.
\<close>

definition w_useOn :: "World \<Rightarrow> sid \<Rightarrow> cid list \<Rightarrow> World" where
  "w_useOn w sk ts = fold (\<lambda>t w'. w_damage w' t (k_power (skillTable w ! sk))) ts w"

text \<open>
  Modelled from the spec: \<^verbatim>\<open>TextMoba::nextTurn\<close> (4.6) advances the time by one unit and
  lets the cooldowns decay.
\<close>

definition w_nextTurn :: "World \<Rightarrow> World" where
  "w_nextTurn w =
     w\<lparr>turn := turn w + 1,
       skillTable := map (\<lambda>k. k\<lparr>k_cooldown := k_cooldown k - 1\<rparr>) (skillTable w)\<rparr>"

text \<open>
  Modelled from the spec: the initial state that \<^verbatim>\<open>TextMoba::restart\<close> (4.6) resets the
  world to. The scenario data is loaded from files that are not among the sources; this
  one has the node Base with the exit red to RedCamp of the spec's scenario 6, the player
  in front at Base with a red fighter in front, a blue ally in the back and a red archer
  in the back, and the skills bomb (one target) and volley (a row).
\<close>

definition arena :: "string \<Rightarrow> World" where
  "arena className =
     \<lparr>characterTable =
        [\<lparr>c_name = className, c_team = BLUE, c_place = FRONT, c_level = 0, c_hp = 10,
          c_maxHP = 10, c_mana = 5, c_range = (if className = ''warrior'' then 1 else 2),
          c_damage = 3, c_node = 0, c_skills = [(''bomb'', 0), (''volley'', 1)]\<rparr>,
         \<lparr>c_name = ''fighter'', c_team = RED, c_place = FRONT, c_level = 0, c_hp = 5,
          c_maxHP = 5, c_mana = 0, c_range = 1, c_damage = 2, c_node = 0, c_skills = []\<rparr>,
         \<lparr>c_name = ''ally'', c_team = BLUE, c_place = BACK, c_level = 0, c_hp = 5,
          c_maxHP = 5, c_mana = 0, c_range = 1, c_damage = 2, c_node = 0, c_skills = []\<rparr>,
         \<lparr>c_name = ''archer'', c_team = RED, c_place = BACK, c_level = 1, c_hp = 4,
          c_maxHP = 4, c_mana = 0, c_range = 2, c_damage = 1, c_node = 0, c_skills = []\<rparr>],
      nodeTable =
        [\<lparr>n_name = ''Base'', n_exits = [(''red'', 1)], n_characters = [0, 1, 2, 3]\<rparr>,
         \<lparr>n_name = ''RedCamp'', n_exits = [(''blue'', 0)], n_characters = []\<rparr>],
      skillTable =
        [\<lparr>k_owner = 0, k_target = SINGLE, k_targetTeam = RED, k_manaCost = 2, k_range = 1,
          k_power = 4, k_cooldown = 0\<rparr>,
         \<lparr>k_owner = 0, k_target = ANY_ROW, k_targetTeam = RED, k_manaCost = 3, k_range = 2,
          k_power = 1, k_cooldown = 0\<rparr>],
      thePlayer = 0,
      turn = 0\<rparr>"

definition w_restart :: "World \<Rightarrow> string \<Rightarrow> World" where
  "w_restart w className = arena className"

text \<open>The record of collaborators over the reference world.\<close>

definition arenaTM :: "World TextMoba" where
  "arenaTM =
     \<lparr>player = thePlayer,
      isAlive = w_isAlive,
      node = (\<lambda>w c. c_node (chr w c)),
      team = (\<lambda>w c. c_team (chr w c)),
      place = (\<lambda>w c. c_place (chr w c)),
      placeName = (\<lambda>w c. if c_place (chr w c) = FRONT then ''front'' else ''back''),
      name = (\<lambda>w c b. c_name (chr w c)),
      level = (\<lambda>w c. c_level (chr w c)),
      hp = (\<lambda>w c. c_hp (chr w c)),
      maxHP = (\<lambda>w c. c_maxHP (chr w c)),
      mana = (\<lambda>w c. c_mana (chr w c)),
      range_of = (\<lambda>w c. c_range (chr w c)),
      skill = w_skill,
      nodeName = (\<lambda>w n. n_name (nodeTable w ! n)),
      characters = (\<lambda>w n. n_characters (nodeTable w ! n)),
      characterAt = w_characterAt,
      destination = w_destination,
      paths = w_paths,
      distanceBetween = w_distanceBetween,
      usable = w_usable,
      target = (\<lambda>w sk. k_target (skillTable w ! sk)),
      targetTeam = (\<lambda>w sk. k_targetTeam (skillTable w ! sk)),
      manaCost = (\<lambda>w sk. k_manaCost (skillTable w ! sk)),
      targetsOf = w_targetsOf,
      targetsRow = w_targetsRow,
      targetsAll = w_targetsAll,
      commands = (\<lambda>w. [Help, Info, Look, Directions, Wait, Go, Move, Attack, Use, Restart]),
      infos = (\<lambda>w. [(''rows'', ''The front row is closer to the enemy than the back row.'')]),
      nextTurn = w_nextTurn,
      moveCharacter = w_moveCharacter,
      placeCharacter = w_placeCharacter,
      attack = w_attack,
      setMana = w_setMana,
      useOn = w_useOn,
      restart = w_restart\<rparr>"

text \<open>A fresh session in a world, and the reference world with the player's health at 0.\<close>

definition session_in :: "'w \<Rightarrow> 'w session" where
  "session_in w = \<lparr>world = w, printed = [], calls = [], readClass = False\<rparr>"

definition arena_dead :: World where
  "arena_dead = w_damage (arena ''mage'') 0 10"

text \<open>The sessions the theorems are exercised on.\<close>

definition warrior_session :: "World session" where
  "warrior_session = session_in (arena ''warrior'')"

definition mage_session :: "World session" where
  "mage_session = session_in (arena ''mage'')"

definition dead_session :: "World session" where
  "dead_session = session_in arena_dead"

definition tired_session :: "World session" where
  "tired_session = session_in (w_setMana (arena ''mage'') 0 1)"

section \<open>Properties of the handlers\<close>

subsection \<open>Printing changes nothing but the console\<close>

lemmas call_defs = call_nextTurn_def call_moveCharacter_def call_placeCharacter_def
  call_attack_def subtract_mana_def call_useOn_def call_restart_def do_call_def

lemma world_print [simp]: "world (print s l) = world s" by (simp add: print_def)
lemma calls_print [simp]: "calls (print s l) = calls s" by (simp add: print_def)
lemma readClass_print [simp]: "readClass (print s l) = readClass s" by (simp add: print_def)
lemma printed_print [simp]: "printed (print s l) = printed s @ [l]" by (simp add: print_def)
lemma turns_print [simp]: "turns (print s l) = turns s" by (simp add: turns_def)

lemma world_foldl_print [simp]: "world (foldl (\<lambda>s' x. print s' (f x)) s xs) = world s"
  by (induction xs arbitrary: s) simp_all
lemma calls_foldl_print [simp]: "calls (foldl (\<lambda>s' x. print s' (f x)) s xs) = calls s"
  by (induction xs arbitrary: s) simp_all
lemma printed_foldl_print [simp]: "printed (foldl (\<lambda>s' x. print s' (f x)) s xs) = printed s @ map f xs"
  by (induction xs arbitrary: s) simp_all

lemma Look_returns: "fst (LookCommand_exec tm s args) = Returns True"
  by (simp add: LookCommand_exec_def Let_def)
lemma Look_world: "world (snd (LookCommand_exec tm s args)) = world s"
  by (simp add: LookCommand_exec_def Let_def)
lemma Look_calls: "calls (snd (LookCommand_exec tm s args)) = calls s"
  by (simp add: LookCommand_exec_def Let_def)

lemma UseCommand_targets_early:
  "UseCommand_targets tm s sk args = Inl (r, s') \<Longrightarrow> world s' = world s \<and> calls s' = calls s"
  by (auto simp add: UseCommand_targets_def Let_def
           split: if_splits sum.splits stoi_error.splits option.splits)

lemma to_unsigned_negative:
  assumes "stoi a = Inr v" and "v < 0"
  shows "2 ^ 31 \<le> to_unsigned v"
proof -
  from assms(1) have "- (2 ^ 31) \<le> v"
    by (auto simp add: stoi_def Let_def split: if_splits)
  with assms(2) have "(v + 2 ^ 32) mod 2 ^ 32 = v + 2 ^ 32"
    by (intro mod_pos_pos_trivial) simp_all
  then have "v mod 2 ^ 32 = v + 2 ^ 32"
    by simp
  with \<open>- (2 ^ 31) \<le> v\<close> show ?thesis
    by (simp add: to_unsigned_def)
qed

text \<open>
  The result of \<^verbatim>\<open>toLower\<close> holds no NUL, and a string without NUL is lowered byte by
  byte.
\<close>

lemma tolower_NUL: "tolower c = CHR 0x00 \<longleftrightarrow> c = CHR 0x00"
  by (auto simp add: tolower_def split: option.splits if_splits)

lemma toLower_Nil: "toLower [] = []"
  by (simp add: toLower_def)

lemma toLower_Cons:
  "toLower (c # cs) = (if c = CHR 0x00 then toLower cs else tolower c # toLower cs)"
  by (simp add: toLower_def c_str_def tolower_NUL)

lemma toLower_no_NUL: "CHR 0x00 \<notin> set (toLower str)"
proof (induction str)
  case Nil
  show ?case by (simp add: toLower_Nil)
next
  case (Cons c cs)
  have "c \<noteq> CHR 0x00 \<Longrightarrow> CHR 0x00 \<noteq> tolower c"
    using tolower_NUL [of c] by auto
  with Cons show ?case by (simp add: toLower_Cons)
qed

lemma toLower_drops_NUL: "toLower str = map tolower (filter (\<lambda>c. c \<noteq> CHR 0x00) str)"
  by (induction str) (simp_all add: toLower_Nil toLower_Cons)

lemma toLower_embedded_NUL: "toLower (''re'' @ [CHR 0x00] @ ''d'') = ''red''"
  by (simp add: toLower_def c_str_def tolower_def)

text \<open>A string with no decimal digit at all is refused by \<^verbatim>\<open>std::stoi\<close>.\<close>

lemma takeWhile_no_match: "\<forall>c \<in> set xs. \<not> P c \<Longrightarrow> takeWhile P xs = []"
  by (cases xs) simp_all

lemma stoi_without_digits:
  assumes "\<forall>c \<in> set a. \<not> isdigit c"
  shows "stoi a = Inl InvalidArgument"
proof -
  have sub: "set (dropWhile isspace a) \<subseteq> set a"
    by (rule set_dropWhileD [THEN subsetI])
  have "set (tl xs) \<subseteq> set xs" for xs :: string
    by (cases xs) auto
  with sub have sub': "set (tl (dropWhile isspace a)) \<subseteq> set a"
    by blast
  have "takeWhile isdigit (dropWhile isspace a) = []"
    using assms sub by (intro takeWhile_no_match) blast
  moreover have "takeWhile isdigit (tl (dropWhile isspace a)) = []"
    using assms sub' by (intro takeWhile_no_match) blast
  ultimately show ?thesis
    by (simp add: stoi_def Let_def)
qed

text \<open>
  The \<^verbatim>\<open>std::out_of_range\<close> of \<^verbatim>\<open>std::stoi\<close> is not caught: it leaves
  \<^verbatim>\<open>AttackCommand::exec\<close> with nothing printed and nothing changed.
\<close>

lemma attack_out_of_range_escapes:
  assumes "isAlive tm (world s) (player tm (world s))"
      and "stoi a = Inl OutOfRange"
  shows "AttackCommand_exec tm s [cmd, a] = (Throws_out_of_range, s)"
  using assms by (simp add: AttackCommand_exec_def Let_def)

subsection \<open>Evaluation in the reference world\<close>

lemma arenaTM_sel:
  "player arenaTM = thePlayer"
  "isAlive arenaTM = w_isAlive"
  "node arenaTM = (\<lambda>w c. c_node (chr w c))"
  "team arenaTM = (\<lambda>w c. c_team (chr w c))"
  "place arenaTM = (\<lambda>w c. c_place (chr w c))"
  "placeName arenaTM = (\<lambda>w c. if c_place (chr w c) = FRONT then ''front'' else ''back'')"
  "name arenaTM = (\<lambda>w c b. c_name (chr w c))"
  "level arenaTM = (\<lambda>w c. c_level (chr w c))"
  "hp arenaTM = (\<lambda>w c. c_hp (chr w c))"
  "maxHP arenaTM = (\<lambda>w c. c_maxHP (chr w c))"
  "mana arenaTM = (\<lambda>w c. c_mana (chr w c))"
  "range_of arenaTM = (\<lambda>w c. c_range (chr w c))"
  "skill arenaTM = w_skill"
  "nodeName arenaTM = (\<lambda>w n. n_name (nodeTable w ! n))"
  "characters arenaTM = (\<lambda>w n. n_characters (nodeTable w ! n))"
  "characterAt arenaTM = w_characterAt"
  "destination arenaTM = w_destination"
  "paths arenaTM = w_paths"
  "distanceBetween arenaTM = w_distanceBetween"
  "usable arenaTM = w_usable"
  "target arenaTM = (\<lambda>w sk. k_target (skillTable w ! sk))"
  "targetTeam arenaTM = (\<lambda>w sk. k_targetTeam (skillTable w ! sk))"
  "manaCost arenaTM = (\<lambda>w sk. k_manaCost (skillTable w ! sk))"
  "targetsOf arenaTM = w_targetsOf"
  "targetsRow arenaTM = w_targetsRow"
  "targetsAll arenaTM = w_targetsAll"
  "nextTurn arenaTM = w_nextTurn"
  "moveCharacter arenaTM = w_moveCharacter"
  "placeCharacter arenaTM = w_placeCharacter"
  "attack arenaTM = w_attack"
  "setMana arenaTM = w_setMana"
  "useOn arenaTM = w_useOn"
  "restart arenaTM = w_restart"
  by (simp_all add: arenaTM_def)

lemmas arena_simps =
  arenaTM_sel arena_def arena_dead_def session_in_def chr_def w_isAlive_def w_distanceBetween_def
  w_characterAt_def w_destination_def w_paths_def w_moveCharacter_def w_placeCharacter_def
  w_damage_def w_attack_def w_setMana_def w_skill_def w_usable_def w_inRange_def
  w_targetsOf_def w_targetsRow_def w_targetsAll_def w_useOn_def w_nextTurn_def w_restart_def

lemmas stoi_simps = stoi_def isspace_def isdigit_def digits_value_def digit_value_def
  to_unsigned_def Let_def

lemmas exec_simps = LookCommand_exec_def DirectionsCommand_exec_def GoCommand_exec_def
  MoveCommand_exec_def AttackCommand_exec_def UseCommand_exec_def UseCommand_targets_def
  RestartCommand_exec_def WaitCommand_exec_def execCommand_look_def call_defs print_def
  turns_def toLower_def c_str_def tolower_def dead_message_def

lemma session_sel:
  "world (session_in w) = w" "printed (session_in w) = []" "calls (session_in w) = []"
  "readClass (session_in w) = False"
  by (simp_all add: session_in_def)

lemmas session_defs = warrior_session_def mage_session_def dead_session_def tired_session_def

subsection \<open>attack\<close>

text \<open>
  The attack command with one argument, given by a living player, for every argument
  that \<^verbatim>\<open>std::stoi\<close> converts, or refuses for want of digits. The handler returns true.
  If the index resolves to a character of the player's node that is alive, is not of the
  player's team and stands at a distance of at most the player's range, the handler
  calls \<^verbatim>\<open>attack\<close> on it and then \<^verbatim>\<open>nextTurn\<close>, once each, and prints nothing. If
  there is no such character, the world is the one before, no call is made, the turn
  does not advance, and exactly one of four fixed messages is printed.
\<close>

theorem attack_iff_valid_target:
  assumes "isAlive tm (world s) (player tm (world s))"
      and "stoi a \<noteq> Inl OutOfRange"
  shows "let w = world s; p = player tm w; res = AttackCommand_exec tm s [cmd, a];
             valid = (\<lambda>t. (\<exists>v. stoi a = Inr v \<and> characterAt tm w (node tm w p) (to_unsigned v) = Some t)
                          \<and> isAlive tm w t \<and> team tm w t \<noteq> team tm w p
                          \<and> distanceBetween tm w (node tm w p) p t \<le> range_of tm w p)
         in fst res = Returns True
          \<and> (\<forall>t. valid t \<longrightarrow>
                 calls (snd res) = calls s @ [CallAttack p t, CallNextTurn]
               \<and> world (snd res) = nextTurn tm (attack tm w p t)
               \<and> turns (snd res) = turns s + 1
               \<and> printed (snd res) = printed s)
          \<and> ((\<nexists>t. valid t) \<longrightarrow>
                 world (snd res) = w \<and> calls (snd res) = calls s \<and> turns (snd res) = turns s
               \<and> (\<exists>d \<in> {''I don't understand who you try to attack.'', ''Invalid target.'',
                          ''You cannot attack allies.'', ''Target out of range.''}.
                     printed (snd res) = printed s @ [[S d]]))"
proof (cases "stoi a")
  case (Inl e)
  with assms(2) have "stoi a = Inl InvalidArgument" by (cases e) simp_all
  with assms(1) show ?thesis
    by (simp add: AttackCommand_exec_def Let_def)
next
  case (Inr v)
  show ?thesis
  proof (cases "characterAt tm (world s) (node tm (world s) (player tm (world s))) (to_unsigned v)")
    case None
    with Inr assms(1) show ?thesis
      by (simp add: AttackCommand_exec_def Let_def)
  next
    case (Some t)
    with Inr assms(1) show ?thesis
      by (simp add: AttackCommand_exec_def Let_def call_defs turns_def)
  qed
qed

theorem attack_iff_valid_target_witness:
  "isAlive arenaTM (world warrior_session) (player arenaTM (world warrior_session))
   \<and> stoi ''1'' \<noteq> Inl OutOfRange
   \<and> stoi ''1'' = Inr 1
   \<and> characterAt arenaTM (world warrior_session) 0 (to_unsigned 1) = Some 1
   \<and> calls (snd (AttackCommand_exec arenaTM warrior_session [''attack'', ''1''])) =
        [CallAttack 0 1, CallNextTurn]
   \<and> hp arenaTM (world (snd (AttackCommand_exec arenaTM warrior_session [''attack'', ''1'']))) 1 = 2
   \<and> printed (snd (AttackCommand_exec arenaTM warrior_session [''attack'', ''3''])) =
        [[S ''Target out of range.'']]"
proof -
  have alive: "isAlive arenaTM (world warrior_session) (player arenaTM (world warrior_session))"
    by (simp add: session_defs session_sel arena_simps)
  have parsed: "stoi ''1'' = Inr 1"
    by (simp add: stoi_simps)
  then have inrange: "stoi ''1'' \<noteq> Inl OutOfRange"
    by simp
  have facts: "player arenaTM (world warrior_session) = 0"
    "node arenaTM (world warrior_session) 0 = 0"
    "characterAt arenaTM (world warrior_session) 0 (to_unsigned 1) = Some 1"
    "isAlive arenaTM (world warrior_session) 1"
    "team arenaTM (world warrior_session) 1 \<noteq> team arenaTM (world warrior_session) 0"
    "distanceBetween arenaTM (world warrior_session) 0 0 1 \<le> range_of arenaTM (world warrior_session) 0"
    "calls warrior_session = []"
    by (simp_all add: session_defs session_sel arena_simps stoi_simps)
  have called: "calls (snd (AttackCommand_exec arenaTM warrior_session [''attack'', ''1''])) =
        [CallAttack 0 1, CallNextTurn]"
    using attack_iff_valid_target [OF alive inrange, of "''attack''"] parsed facts
    by (simp add: Let_def call_defs)
  have "hp arenaTM (world (snd (AttackCommand_exec arenaTM warrior_session [''attack'', ''1'']))) 1 = 2"
    and "printed (snd (AttackCommand_exec arenaTM warrior_session [''attack'', ''3''])) =
        [[S ''Target out of range.'']]"
    by (simp_all add: session_defs session_sel arena_simps exec_simps stoi_simps)
  with alive parsed inrange facts called show ?thesis
    by simp
qed

text \<open>
  C1. The attack command with one index argument, given by a living player, is to call
  \<^verbatim>\<open>attack\<close> and advance the turn exactly when the index resolves to a living enemy
  within range, and to print a fixed diagnostic otherwise. With the index argument
  \<^verbatim>\<open>99999999999\<close>, whose digits exceed the range of \<^verbatim>\<open>int\<close>, the index resolves to no
  character, yet no diagnostic is printed: \<^verbatim>\<open>std::stoi\<close> throws \<^verbatim>\<open>std::out_of_range\<close>,
  the handler catches \<^verbatim>\<open>std::invalid_argument\<close> only, and the exception leaves
  \<^verbatim>\<open>exec\<close>. Nothing is called and the world is unchanged.
\<close>

theorem attack_huge_index_throws:
  "isAlive arenaTM (world warrior_session) (player arenaTM (world warrior_session))
   \<and> stoi ''99999999999'' = Inl OutOfRange
   \<and> AttackCommand_exec arenaTM warrior_session [''attack'', ''99999999999''] =
        (Throws_out_of_range, warrior_session)
   \<and> printed (snd (AttackCommand_exec arenaTM warrior_session [''attack'', ''99999999999''])) = []
   \<and> calls (snd (AttackCommand_exec arenaTM warrior_session [''attack'', ''99999999999''])) = []"
proof -
  have alive: "isAlive arenaTM (world warrior_session) (player arenaTM (world warrior_session))"
    by (simp add: session_defs session_sel arena_simps)
  have huge: "stoi ''99999999999'' = Inl OutOfRange"
    by (simp add: stoi_simps)
  have quiet: "printed warrior_session = []" "calls warrior_session = []"
    by (simp_all add: session_defs session_sel)
  from attack_out_of_range_escapes [OF alive huge, of "''attack''"] alive huge quiet
  show ?thesis
    by simp
qed

subsection \<open>go\<close>

text \<open>
  C2. \<^verbatim>\<open>go <direction>\<close>, given by a living player, where the lower-cased direction is
  an exit of the player's node. The handler calls \<^verbatim>\<open>moveCharacter\<close> with the player and
  the destination, then runs the look command in the world after the move, then calls
  \<^verbatim>\<open>nextTurn\<close>, in this order and once each: the number of turns goes up by 1, the world
  is that of \<^verbatim>\<open>nextTurn\<close> after \<^verbatim>\<open>moveCharacter\<close>, and the lines printed are those
  of look. Where \<^verbatim>\<open>moveCharacter\<close> sets the node of the character it moves (spec 4.6)
  and \<^verbatim>\<open>nextTurn\<close> leaves the player and its node alone, the player's node at the end
  is the destination.
\<close>

theorem go_reachable:
  assumes "isAlive tm (world s) (player tm (world s))"
      and "destination tm (world s) (node tm (world s) (player tm (world s))) (toLower dir) = Some dest"
  shows "let w = world s; p = player tm w; w1 = moveCharacter tm w p dest;
             res = GoCommand_exec tm s [cmd, dir]
         in fst res = Returns True
          \<and> calls (snd res) = calls s @ [CallMoveCharacter p dest, CallExecCommand ''look'', CallNextTurn]
          \<and> turns (snd res) = turns s + 1
          \<and> world (snd res) = nextTurn tm w1
          \<and> printed (snd res) =
              printed (snd (LookCommand_exec tm (s\<lparr>world := w1\<rparr>) [''look'']))
          \<and> (node tm w1 p = dest \<and> player tm (nextTurn tm w1) = p
               \<and> node tm (nextTurn tm w1) p = node tm w1 p
              \<longrightarrow> node tm (world (snd res)) (player tm (world (snd res))) = dest)"
  using assms
  by (simp add: GoCommand_exec_def Let_def execCommand_look_def call_defs Look_world Look_calls turns_def)
   (simp add: LookCommand_exec_def Let_def)

theorem go_reachable_witness:
  "isAlive arenaTM (world warrior_session) (player arenaTM (world warrior_session))
   \<and> destination arenaTM (world warrior_session)
        (node arenaTM (world warrior_session) (player arenaTM (world warrior_session)))
        (toLower ''Red'') = Some 1
   \<and> nodeName arenaTM (world warrior_session) 0 = ''Base''
   \<and> nodeName arenaTM (world warrior_session) 1 = ''RedCamp''
   \<and> node arenaTM (world warrior_session) 0 = 0
   \<and> calls (snd (GoCommand_exec arenaTM warrior_session [''go'', ''Red''])) =
        [CallMoveCharacter 0 1, CallExecCommand ''look'', CallNextTurn]
   \<and> turns (snd (GoCommand_exec arenaTM warrior_session [''go'', ''Red''])) = turns warrior_session + 1
   \<and> node arenaTM (world (snd (GoCommand_exec arenaTM warrior_session [''go'', ''Red''])))
        (player arenaTM (world (snd (GoCommand_exec arenaTM warrior_session [''go'', ''Red''])))) = 1
   \<and> take 1 (printed (snd (GoCommand_exec arenaTM warrior_session [''go'', ''Red'']))) =
        [[S ''You are at '', S ''RedCamp'', S ''.'']]"
proof -
  have alive: "isAlive arenaTM (world warrior_session) (player arenaTM (world warrior_session))"
    by (simp add: session_defs session_sel arena_simps)
  have dest: "destination arenaTM (world warrior_session)
        (node arenaTM (world warrior_session) (player arenaTM (world warrior_session)))
        (toLower ''Red'') = Some 1"
    by (simp add: session_defs session_sel arena_simps toLower_def c_str_def tolower_def)
  have facts: "player arenaTM (world warrior_session) = 0"
    "nodeName arenaTM (world warrior_session) 0 = ''Base''"
    "nodeName arenaTM (world warrior_session) 1 = ''RedCamp''"
    "node arenaTM (world warrior_session) 0 = 0"
    "calls warrior_session = []"
    "node arenaTM (moveCharacter arenaTM (world warrior_session) 0 1) 0 = 1"
    "player arenaTM (nextTurn arenaTM (moveCharacter arenaTM (world warrior_session) 0 1)) = 0"
    "node arenaTM (nextTurn arenaTM (moveCharacter arenaTM (world warrior_session) 0 1)) 0 = 1"
    by (simp_all add: session_defs session_sel arena_simps)
  have moved: "calls (snd (GoCommand_exec arenaTM warrior_session [''go'', ''Red''])) =
        [CallMoveCharacter 0 1, CallExecCommand ''look'', CallNextTurn]
     \<and> turns (snd (GoCommand_exec arenaTM warrior_session [''go'', ''Red''])) = turns warrior_session + 1
     \<and> node arenaTM (world (snd (GoCommand_exec arenaTM warrior_session [''go'', ''Red''])))
        (player arenaTM (world (snd (GoCommand_exec arenaTM warrior_session [''go'', ''Red''])))) = 1"
    using go_reachable [OF alive dest, of "''go''"] facts
    by (simp add: Let_def)
  have "take 1 (printed (snd (GoCommand_exec arenaTM warrior_session [''go'', ''Red'']))) =
        [[S ''You are at '', S ''RedCamp'', S ''.'']]"
    by (simp add: session_defs session_sel arena_simps exec_simps)
  with alive dest facts moved show ?thesis
    by simp
qed

text \<open>
  C8. \<^verbatim>\<open>go <direction>\<close>, given by a living player, where the lower-cased direction is
  not an exit of the player's node. The handler prints the unknown-direction message
  with the lower-cased direction and returns true; the world, and with it the player's
  node, is unchanged, no call is made and the turn does not advance.
\<close>

theorem go_unknown_direction:
  assumes "isAlive tm (world s) (player tm (world s))"
      and "destination tm (world s) (node tm (world s) (player tm (world s))) (toLower dir) = None"
  shows \<open>let res = GoCommand_exec tm s [cmd, dir]
         in res = (Returns True, print s [S ''Unknown direction "'', S (toLower dir), S ''"''])
          \<and> world (snd res) = world s
          \<and> node tm (world (snd res)) (player tm (world (snd res))) = node tm (world s) (player tm (world s))
          \<and> calls (snd res) = calls s
          \<and> turns (snd res) = turns s\<close>
  using assms by (simp add: GoCommand_exec_def Let_def)

theorem go_unknown_direction_witness:
  \<open>isAlive arenaTM (world warrior_session) (player arenaTM (world warrior_session))
   \<and> destination arenaTM (world warrior_session)
        (node arenaTM (world warrior_session) (player arenaTM (world warrior_session)))
        (toLower ''North'') = None
   \<and> GoCommand_exec arenaTM warrior_session [''go'', ''North''] =
        (Returns True, print warrior_session [S ''Unknown direction "'', S ''north'', S ''"''])\<close>
proof -
  have alive: "isAlive arenaTM (world warrior_session) (player arenaTM (world warrior_session))"
    by (simp add: session_defs session_sel arena_simps)
  have dest: "destination arenaTM (world warrior_session)
        (node arenaTM (world warrior_session) (player arenaTM (world warrior_session)))
        (toLower ''North'') = None"
    by (simp add: session_defs session_sel arena_simps toLower_def c_str_def tolower_def)
  have lower: "toLower ''North'' = ''north''"
    by (simp add: toLower_def c_str_def tolower_def)
  show ?thesis
    using go_unknown_direction [OF alive dest, of "''go''"] alive dest lower
    by (simp add: Let_def)
qed

subsection \<open>move\<close>

text \<open>
  C9. \<^verbatim>\<open>move front\<close> or \<^verbatim>\<open>move back\<close>, given by a living player. If the row asked
  for is the player's row, the handler prints that the player is there already; the world
  is unchanged, no call is made and the turn does not advance. Otherwise it calls
  \<^verbatim>\<open>placeCharacter\<close> with the new row and then \<^verbatim>\<open>nextTurn\<close>, once each.
\<close>

theorem move_row:
  assumes "isAlive tm (world s) (player tm (world s))"
      and "r = ''front'' \<or> r = ''back''"
  shows "let w = world s; p = player tm w; pl = (if r = ''front'' then FRONT else BACK);
             res = MoveCommand_exec tm s [cmd, r]
         in if pl = place tm w p then
              res = (Returns True, print s [S ''You already are at the '', S r, S '' row.''])
              \<and> world (snd res) = w \<and> calls (snd res) = calls s \<and> turns (snd res) = turns s
            else
              fst res = Returns True
              \<and> printed (snd res) = printed s
              \<and> world (snd res) = nextTurn tm (placeCharacter tm w p pl)
              \<and> calls (snd res) = calls s @ [CallPlaceCharacter p pl, CallNextTurn]
              \<and> turns (snd res) = turns s + 1"
  using assms by (auto simp add: MoveCommand_exec_def Let_def call_defs turns_def)

theorem move_row_witness:
  "isAlive arenaTM (world warrior_session) (player arenaTM (world warrior_session))
   \<and> (''back'' = ''front'' \<or> ''back'' = ''back'')
   \<and> place arenaTM (world warrior_session) 0 = FRONT
   \<and> calls (snd (MoveCommand_exec arenaTM warrior_session [''move'', ''back''])) =
        [CallPlaceCharacter 0 BACK, CallNextTurn]
   \<and> place arenaTM (world (snd (MoveCommand_exec arenaTM warrior_session [''move'', ''back'']))) 0 = BACK
   \<and> MoveCommand_exec arenaTM warrior_session [''move'', ''front''] =
        (Returns True, print warrior_session [S ''You already are at the '', S ''front'', S '' row.''])"
proof -
  have alive: "isAlive arenaTM (world warrior_session) (player arenaTM (world warrior_session))"
    by (simp add: session_defs session_sel arena_simps)
  have row: "''back'' = ''front'' \<or> ''back'' = ''back''"
    by simp
  have row': "''front'' = ''front'' \<or> ''front'' = ''back''"
    by simp
  have facts: "player arenaTM (world warrior_session) = 0"
    "place arenaTM (world warrior_session) 0 = FRONT"
    "calls warrior_session = []"
    "place arenaTM (nextTurn arenaTM (placeCharacter arenaTM (world warrior_session) 0 BACK)) 0 = BACK"
    by (simp_all add: session_defs session_sel arena_simps)
  have to_back: "calls (snd (MoveCommand_exec arenaTM warrior_session [''move'', ''back''])) =
        [CallPlaceCharacter 0 BACK, CallNextTurn]
     \<and> place arenaTM (world (snd (MoveCommand_exec arenaTM warrior_session [''move'', ''back'']))) 0 = BACK"
    using move_row [OF alive row, of "''move''"] facts
    by (simp add: Let_def call_defs)
  have to_front: "MoveCommand_exec arenaTM warrior_session [''move'', ''front''] =
        (Returns True, print warrior_session [S ''You already are at the '', S ''front'', S '' row.''])"
    using move_row [OF alive row', of "''move''"] facts
    by (simp add: Let_def)
  from alive row facts to_back to_front show ?thesis
    by simp
qed

subsection \<open>use\<close>

text \<open>
  C3. The use command. When the player is alive, the skill named exists and is usable
  and the target resolution yields a vector that is not empty, the handler writes the
  player's mana less the skill's cost to the mana field, then calls \<^verbatim>\<open>useOn\<close> with
  the targets, then \<^verbatim>\<open>nextTurn\<close>: one write and one call of each, in this order. In
  every other case the world is unchanged (so no mana is taken), no call is made (so
  \<^verbatim>\<open>useOn\<close> is not called) and the turn does not advance.
\<close>

theorem use_mana_once:
  "let w = world s; p = player tm w; res = UseCommand_exec tm s args
   in (\<forall>sk ts. isAlive tm w p \<and> 2 \<le> length args \<and> skill tm w p (args ! 1) = Some sk
                \<and> usable tm w sk \<and> UseCommand_targets tm s sk args = Inr ts \<and> ts \<noteq> []
        \<longrightarrow> fst res = Returns True
          \<and> calls (snd res) =
              calls s @ [WriteMana p (mana tm w p - manaCost tm w sk), CallUseOn sk ts, CallNextTurn]
          \<and> world (snd res) =
              nextTurn tm (useOn tm (setMana tm w p (mana tm w p - manaCost tm w sk)) sk ts)
          \<and> turns (snd res) = turns s + 1
          \<and> printed (snd res) = printed s)
    \<and> (\<not> (\<exists>sk ts. isAlive tm w p \<and> 2 \<le> length args \<and> skill tm w p (args ! 1) = Some sk
                \<and> usable tm w sk \<and> UseCommand_targets tm s sk args = Inr ts \<and> ts \<noteq> [])
        \<longrightarrow> world (snd res) = w \<and> calls (snd res) = calls s \<and> turns (snd res) = turns s)"
proof -
  have ok: "fst (UseCommand_exec tm s args) = Returns True
      \<and> calls (snd (UseCommand_exec tm s args)) =
          calls s @ [WriteMana (player tm (world s))
                       (mana tm (world s) (player tm (world s)) - manaCost tm (world s) sk),
                     CallUseOn sk ts, CallNextTurn]
      \<and> world (snd (UseCommand_exec tm s args)) =
          nextTurn tm (useOn tm (setMana tm (world s) (player tm (world s))
            (mana tm (world s) (player tm (world s)) - manaCost tm (world s) sk)) sk ts)
      \<and> turns (snd (UseCommand_exec tm s args)) = turns s + 1
      \<and> printed (snd (UseCommand_exec tm s args)) = printed s"
    if "isAlive tm (world s) (player tm (world s))" "2 \<le> length args"
       "skill tm (world s) (player tm (world s)) (args ! 1) = Some sk"
       "usable tm (world s) sk" "UseCommand_targets tm s sk args = Inr ts" "ts \<noteq> []"
    for sk ts
    using that by (simp add: UseCommand_exec_def Let_def call_defs turns_def)
  have ko: "world (snd (UseCommand_exec tm s args)) = world s
      \<and> calls (snd (UseCommand_exec tm s args)) = calls s"
    if "\<not> (\<exists>sk ts. isAlive tm (world s) (player tm (world s)) \<and> 2 \<le> length args
             \<and> skill tm (world s) (player tm (world s)) (args ! 1) = Some sk
             \<and> usable tm (world s) sk \<and> UseCommand_targets tm s sk args = Inr ts \<and> ts \<noteq> [])"
  proof (cases "isAlive tm (world s) (player tm (world s)) \<and> 2 \<le> length args")
    case False
    show ?thesis
    proof (cases "isAlive tm (world s) (player tm (world s))")
      case dead: False
      then show ?thesis by (simp add: UseCommand_exec_def Let_def)
    next
      case True
      with False have "length args < 2" by simp
      with True show ?thesis
        by (cases args) (simp_all add: UseCommand_exec_def Let_def)
    qed
  next
    case True
    with that show ?thesis
      by (auto simp add: UseCommand_exec_def Let_def
               split: option.splits sum.splits dest: UseCommand_targets_early)
  qed
  show ?thesis
    unfolding Let_def using ok ko by (simp add: turns_def)
qed

theorem use_mana_once_witness:
  "isAlive arenaTM (world warrior_session) (player arenaTM (world warrior_session))
   \<and> 2 \<le> length [''use'', ''bomb'', ''1'']
   \<and> skill arenaTM (world warrior_session) (player arenaTM (world warrior_session))
        ([''use'', ''bomb'', ''1''] ! 1) = Some 0
   \<and> usable arenaTM (world warrior_session) 0
   \<and> UseCommand_targets arenaTM warrior_session 0 [''use'', ''bomb'', ''1''] = Inr [1]
   \<and> mana arenaTM (world warrior_session) 0 = 5
   \<and> manaCost arenaTM (world warrior_session) 0 = 2
   \<and> calls (snd (UseCommand_exec arenaTM warrior_session [''use'', ''bomb'', ''1''])) =
        [WriteMana 0 3, CallUseOn 0 [1], CallNextTurn]
   \<and> mana arenaTM (world (snd (UseCommand_exec arenaTM warrior_session [''use'', ''bomb'', ''1'']))) 0 = 3
   \<and> world (snd (UseCommand_exec arenaTM warrior_session [''use'', ''bomb'', ''7''])) =
        world warrior_session
   \<and> printed (snd (UseCommand_exec arenaTM warrior_session [''use'', ''bomb'', ''7''])) =
        [[S ''Invalid target.'']]"
proof -
  have alive: "isAlive arenaTM (world warrior_session) (player arenaTM (world warrior_session))"
    by (simp add: session_defs session_sel arena_simps)
  have len: "2 \<le> length [''use'', ''bomb'', ''1'']"
    by simp
  have owned: "skill arenaTM (world warrior_session) (player arenaTM (world warrior_session))
        ([''use'', ''bomb'', ''1''] ! 1) = Some 0"
    by (simp add: session_defs session_sel arena_simps)
  have ready: "usable arenaTM (world warrior_session) 0"
    by (simp add: session_defs session_sel arena_simps)
  have resolved: "UseCommand_targets arenaTM warrior_session 0 [''use'', ''bomb'', ''1''] = Inr [1]"
    by (simp add: session_defs session_sel arena_simps UseCommand_targets_def stoi_simps)
  have facts: "player arenaTM (world warrior_session) = 0"
    "mana arenaTM (world warrior_session) 0 = 5"
    "manaCost arenaTM (world warrior_session) 0 = 2"
    "calls warrior_session = []"
    by (simp_all add: session_defs session_sel arena_simps)
  have "\<forall>sk ts. isAlive arenaTM (world warrior_session) (player arenaTM (world warrior_session))
           \<and> 2 \<le> length [''use'', ''bomb'', ''1'']
           \<and> skill arenaTM (world warrior_session) (player arenaTM (world warrior_session))
                ([''use'', ''bomb'', ''1''] ! 1) = Some sk
           \<and> usable arenaTM (world warrior_session) sk
           \<and> UseCommand_targets arenaTM warrior_session sk [''use'', ''bomb'', ''1''] = Inr ts
           \<and> ts \<noteq> []
          \<longrightarrow> calls (snd (UseCommand_exec arenaTM warrior_session [''use'', ''bomb'', ''1''])) =
                calls warrior_session @
                [WriteMana (player arenaTM (world warrior_session))
                   (mana arenaTM (world warrior_session) (player arenaTM (world warrior_session))
                    - manaCost arenaTM (world warrior_session) sk),
                 CallUseOn sk ts, CallNextTurn]"
    using use_mana_once [where tm = arenaTM and s = warrior_session
        and args = "[''use'', ''bomb'', ''1'']"]
    unfolding Let_def by blast
  with alive len owned ready resolved
  have "calls (snd (UseCommand_exec arenaTM warrior_session [''use'', ''bomb'', ''1''])) =
          calls warrior_session @
          [WriteMana (player arenaTM (world warrior_session))
             (mana arenaTM (world warrior_session) (player arenaTM (world warrior_session))
              - manaCost arenaTM (world warrior_session) 0),
           CallUseOn 0 [1], CallNextTurn]"
    by blast
  with facts have once:
    "calls (snd (UseCommand_exec arenaTM warrior_session [''use'', ''bomb'', ''1''])) =
        [WriteMana 0 3, CallUseOn 0 [1], CallNextTurn]"
    by simp
  have "mana arenaTM (world (snd (UseCommand_exec arenaTM warrior_session [''use'', ''bomb'', ''1'']))) 0 = 3"
    and "world (snd (UseCommand_exec arenaTM warrior_session [''use'', ''bomb'', ''7''])) =
        world warrior_session"
    and "printed (snd (UseCommand_exec arenaTM warrior_session [''use'', ''bomb'', ''7''])) =
        [[S ''Invalid target.'']]"
    by (simp_all add: session_defs session_sel arena_simps exec_simps stoi_simps)
  with alive len owned ready resolved facts once show ?thesis
    by simp
qed

text \<open>
  C7. The use command, given by a living player, naming an owned skill that is not
  usable, with any further arguments at all. The handler prints that the skill cannot
  be used right now and returns true; the world is unchanged, no call is made and the
  turn does not advance. The result does not depend on the target arguments: they are
  not looked at.
\<close>

theorem use_unusable:
  assumes "isAlive tm (world s) (player tm (world s))"
      and "2 \<le> length args"
      and "skill tm (world s) (player tm (world s)) (args ! 1) = Some sk"
      and "\<not> usable tm (world s) sk"
  shows "let res = UseCommand_exec tm s args
         in res = (Returns True, print s [S ''You can't use this skill right now.''])
          \<and> world (snd res) = world s \<and> calls (snd res) = calls s \<and> turns (snd res) = turns s"
  using assms by (auto simp add: UseCommand_exec_def Let_def)

theorem use_unusable_witness:
  "isAlive arenaTM (world tired_session) (player arenaTM (world tired_session))
   \<and> 2 \<le> length [''use'', ''bomb'', ''1'']
   \<and> skill arenaTM (world tired_session) (player arenaTM (world tired_session))
        ([''use'', ''bomb'', ''1''] ! 1) = Some 0
   \<and> \<not> usable arenaTM (world tired_session) 0
   \<and> UseCommand_exec arenaTM tired_session [''use'', ''bomb'', ''1''] =
        (Returns True, print tired_session [S ''You can't use this skill right now.''])"
proof -
  have alive: "isAlive arenaTM (world tired_session) (player arenaTM (world tired_session))"
    by (simp add: session_defs session_sel arena_simps)
  have len: "2 \<le> length [''use'', ''bomb'', ''1'']"
    by simp
  have owned: "skill arenaTM (world tired_session) (player arenaTM (world tired_session))
        ([''use'', ''bomb'', ''1''] ! 1) = Some 0"
    by (simp add: session_defs session_sel arena_simps)
  have tired: "\<not> usable arenaTM (world tired_session) 0"
    by (simp add: session_defs session_sel arena_simps)
  show ?thesis
    using use_unusable [OF alive len owned tired] alive len owned tired
    by (simp add: Let_def)
qed

subsection \<open>restart\<close>

text \<open>
  C4. The restart dialogue. Outside a dialogue, restart with no argument prints the
  class prompt, returns false and opens the dialogue. Inside the dialogue, a line that is
  warrior, ranger or mage calls \<^verbatim>\<open>restart\<close> with it, returns true and closes the
  dialogue. Any other continuation, whether one word or several or none, prints at
  least one line, returns false and leaves the dialogue open, the world unchanged and no
  call made. The two steps in a row, from a session outside a dialogue, restart the world
  with the class given.
\<close>

theorem restart_dialogue:
  "(\<not> readClass s \<longrightarrow>
      RestartCommand_exec tm s [cmd] =
        (Returns False,
         (print s [S ''Choose your class: [ warrior, ranger, mage ]''])\<lparr>readClass := True\<rparr>))
   \<and> (readClass s \<and> line \<in> {''warrior'', ''ranger'', ''mage''} \<longrightarrow>
        RestartCommand_exec tm s [line] =
          (Returns True,
           s\<lparr>world := restart tm (world s) line, calls := calls s @ [CallRestart line],
             readClass := False\<rparr>))
   \<and> (readClass s \<and> args \<notin> {[''warrior''], [''ranger''], [''mage'']} \<longrightarrow>
        fst (RestartCommand_exec tm s args) = Returns False
      \<and> readClass (snd (RestartCommand_exec tm s args))
      \<and> world (snd (RestartCommand_exec tm s args)) = world s
      \<and> calls (snd (RestartCommand_exec tm s args)) = calls s
      \<and> (\<exists>ls. ls \<noteq> [] \<and> printed (snd (RestartCommand_exec tm s args)) = printed s @ ls))
   \<and> (\<not> readClass s \<and> line \<in> {''warrior'', ''ranger'', ''mage''} \<longrightarrow>
        fst (RestartCommand_exec tm (snd (RestartCommand_exec tm s [cmd])) [line]) = Returns True
      \<and> world (snd (RestartCommand_exec tm (snd (RestartCommand_exec tm s [cmd])) [line])) =
          restart tm (world s) line
      \<and> \<not> readClass (snd (RestartCommand_exec tm (snd (RestartCommand_exec tm s [cmd])) [line])))"
proof (intro conjI impI)
  assume "\<not> readClass s"
  then show "RestartCommand_exec tm s [cmd] =
        (Returns False,
         (print s [S ''Choose your class: [ warrior, ranger, mage ]''])\<lparr>readClass := True\<rparr>)"
    by (simp add: RestartCommand_exec_def)
next
  assume "readClass s \<and> line \<in> {''warrior'', ''ranger'', ''mage''}"
  then show "RestartCommand_exec tm s [line] =
          (Returns True,
           s\<lparr>world := restart tm (world s) line, calls := calls s @ [CallRestart line],
             readClass := False\<rparr>)"
    by (auto simp add: RestartCommand_exec_def call_defs)
next
  assume a: "readClass s \<and> args \<notin> {[''warrior''], [''ranger''], [''mage'']}"
  show "fst (RestartCommand_exec tm s args) = Returns False"
    and "readClass (snd (RestartCommand_exec tm s args))"
    and "world (snd (RestartCommand_exec tm s args)) = world s"
    and "calls (snd (RestartCommand_exec tm s args)) = calls s"
    and "\<exists>ls. ls \<noteq> [] \<and> printed (snd (RestartCommand_exec tm s args)) = printed s @ ls"
  proof -
    consider (one) x where "args = [x]" "x \<noteq> ''warrior''" "x \<noteq> ''ranger''" "x \<noteq> ''mage''"
      | (other) "length args \<noteq> 1"
      using a by (cases args; cases "tl args") auto
    then have "fst (RestartCommand_exec tm s args) = Returns False
      \<and> readClass (snd (RestartCommand_exec tm s args))
      \<and> world (snd (RestartCommand_exec tm s args)) = world s
      \<and> calls (snd (RestartCommand_exec tm s args)) = calls s
      \<and> (\<exists>ls. ls \<noteq> [] \<and> printed (snd (RestartCommand_exec tm s args)) = printed s @ ls)"
    proof cases
      case one
      with a show ?thesis by (simp add: RestartCommand_exec_def Let_def)
    next
      case other
      with a show ?thesis by (simp add: RestartCommand_exec_def Let_def)
    qed
    then show "fst (RestartCommand_exec tm s args) = Returns False"
      and "readClass (snd (RestartCommand_exec tm s args))"
      and "world (snd (RestartCommand_exec tm s args)) = world s"
      and "calls (snd (RestartCommand_exec tm s args)) = calls s"
      and "\<exists>ls. ls \<noteq> [] \<and> printed (snd (RestartCommand_exec tm s args)) = printed s @ ls"
      by simp_all
  qed
next
  assume a: "\<not> readClass s \<and> line \<in> {''warrior'', ''ranger'', ''mage''}"
  then have first: "RestartCommand_exec tm s [cmd] =
        (Returns False,
         (print s [S ''Choose your class: [ warrior, ranger, mage ]''])\<lparr>readClass := True\<rparr>)"
    by (simp add: RestartCommand_exec_def)
  from a show
    "fst (RestartCommand_exec tm (snd (RestartCommand_exec tm s [cmd])) [line]) = Returns True"
    and "world (snd (RestartCommand_exec tm (snd (RestartCommand_exec tm s [cmd])) [line])) =
          restart tm (world s) line"
    and "\<not> readClass (snd (RestartCommand_exec tm (snd (RestartCommand_exec tm s [cmd])) [line]))"
    unfolding first by (auto simp add: RestartCommand_exec_def call_defs)
qed

theorem restart_dialogue_witness:
  "\<not> readClass mage_session
   \<and> ''mage'' \<in> {''warrior'', ''ranger'', ''mage''}
   \<and> RestartCommand_exec arenaTM mage_session [''restart''] =
        (Returns False,
         (print mage_session [S ''Choose your class: [ warrior, ranger, mage ]''])
           \<lparr>readClass := True\<rparr>)
   \<and> fst (RestartCommand_exec arenaTM
            (snd (RestartCommand_exec arenaTM mage_session [''restart''])) [''mage'']) = Returns True
   \<and> world (snd (RestartCommand_exec arenaTM
            (snd (RestartCommand_exec arenaTM mage_session [''restart''])) [''mage''])) = arena ''mage''
   \<and> fst (RestartCommand_exec arenaTM
            (snd (RestartCommand_exec arenaTM mage_session [''restart''])) [''wizard'']) = Returns False"
proof -
  have idle: "\<not> readClass mage_session"
    by (simp add: session_defs session_sel)
  have cls: "''mage'' \<in> {''warrior'', ''ranger'', ''mage''}"
    by simp
  have reset: "restart arenaTM (world mage_session) ''mage'' = arena ''mage''"
    by (simp add: arenaTM_sel w_restart_def)
  have prompt: "RestartCommand_exec arenaTM mage_session [''restart''] =
        (Returns False,
         (print mage_session [S ''Choose your class: [ warrior, ranger, mage ]''])
           \<lparr>readClass := True\<rparr>)"
    using restart_dialogue [where tm = arenaTM and s = mage_session and cmd = "''restart''"
        and line = "''mage''" and args = "[''wizard'']"] idle
    by blast
  have chosen: "fst (RestartCommand_exec arenaTM
            (snd (RestartCommand_exec arenaTM mage_session [''restart''])) [''mage'']) = Returns True
     \<and> world (snd (RestartCommand_exec arenaTM
            (snd (RestartCommand_exec arenaTM mage_session [''restart''])) [''mage''])) =
         restart arenaTM (world mage_session) ''mage''"
    using restart_dialogue [where tm = arenaTM and s = mage_session and cmd = "''restart''"
        and line = "''mage''" and args = "[''wizard'']"] idle cls
    by blast
  have "fst (RestartCommand_exec arenaTM
            (snd (RestartCommand_exec arenaTM mage_session [''restart''])) [''wizard'']) = Returns False"
    by (simp add: RestartCommand_exec_def session_defs session_sel print_def)
  with idle cls prompt chosen reset show ?thesis
    by simp
qed

subsection \<open>The guard on a dead player\<close>

text \<open>
  C5, as amended. Every command except help, info, restart and wait, when the player is
  dead, prints the fixed message about waiting for the respawn, returns true and does
  nothing else, whatever its arguments.
\<close>

theorem dead_player_guard:
  assumes "\<not> isAlive tm (world s) (player tm (world s))"
      and "cmd \<notin> {Help, Info, Restart, Wait}"
  shows "exec tm cmd s args = (Returns True, print s dead_message)"
  using assms
  by (cases cmd)
     (simp_all add: LookCommand_exec_def DirectionsCommand_exec_def GoCommand_exec_def
        MoveCommand_exec_def AttackCommand_exec_def UseCommand_exec_def Let_def)

theorem dead_player_guard_witness:
  "\<not> isAlive arenaTM (world dead_session) (player arenaTM (world dead_session))
   \<and> Attack \<notin> {Help, Info, Restart, Wait}
   \<and> exec arenaTM Attack dead_session [''attack'', ''1''] =
        (Returns True, print dead_session dead_message)"
proof -
  have dead: "\<not> isAlive arenaTM (world dead_session) (player arenaTM (world dead_session))"
    by (simp add: session_defs session_sel arena_simps)
  have guarded: "Attack \<notin> {Help, Info, Restart, Wait}"
    by simp
  show ?thesis
    using dead_player_guard [OF dead guarded, of "[''attack'', ''1'']"] dead guarded
    by simp
qed

text \<open>
  The wait command has no such guard: with the player dead it prints nothing and calls
  \<^verbatim>\<open>nextTurn\<close>. It is the command the fixed message tells the dead player to use.
\<close>

theorem dead_wait_counterexample:
  "\<not> isAlive arenaTM (world dead_session) (player arenaTM (world dead_session))
   \<and> exec arenaTM Wait dead_session [''wait''] \<noteq> (Returns True, print dead_session dead_message)
   \<and> printed (snd (exec arenaTM Wait dead_session [''wait''])) = []
   \<and> calls (snd (exec arenaTM Wait dead_session [''wait''])) = [CallNextTurn]
   \<and> turn (world (snd (exec arenaTM Wait dead_session [''wait'']))) = turn (world dead_session) + 1"
  by (simp add: session_defs session_sel arena_simps exec_simps)

subsection \<open>Arguments that are not indices\<close>

text \<open>
  C6, as amended. An index argument in which no decimal digit follows the optional
  white space and sign makes \<^verbatim>\<open>std::stoi\<close> throw \<^verbatim>\<open>std::invalid_argument\<close>. For every
  such argument, given by a living player, attack prints its message of not
  understanding and returns true, and so does use with an owned, usable skill of the
  single-target mode; the session is otherwise unchanged.
\<close>

theorem no_digits_diagnostic:
  assumes "isAlive tm (world s) (player tm (world s))"
      and "stoi a = Inl InvalidArgument"
  shows "let w = world s; p = player tm w in
           AttackCommand_exec tm s [cmd, a] =
             (Returns True, print s [S ''I don't understand who you try to attack.''])
         \<and> (\<forall>sk. skill tm w p nm = Some sk \<and> usable tm w sk \<and> target tm w sk = SINGLE \<longrightarrow>
               UseCommand_exec tm s [cmd, nm, a] =
                 (Returns True, print s [S ''I don't understand who you're trying to attack.'']))"
  using assms
  by (auto simp add: AttackCommand_exec_def UseCommand_exec_def UseCommand_targets_def Let_def)

theorem no_digits_diagnostic_witness:
  "isAlive arenaTM (world warrior_session) (player arenaTM (world warrior_session))
   \<and> stoi ''abc'' = Inl InvalidArgument
   \<and> skill arenaTM (world warrior_session) (player arenaTM (world warrior_session)) ''bomb'' = Some 0
   \<and> usable arenaTM (world warrior_session) 0
   \<and> target arenaTM (world warrior_session) 0 = SINGLE
   \<and> AttackCommand_exec arenaTM warrior_session [''attack'', ''abc''] =
        (Returns True, print warrior_session [S ''I don't understand who you try to attack.''])
   \<and> UseCommand_exec arenaTM warrior_session [''use'', ''bomb'', ''abc''] =
        (Returns True,
         print warrior_session [S ''I don't understand who you're trying to attack.''])"
proof -
  have alive: "isAlive arenaTM (world warrior_session) (player arenaTM (world warrior_session))"
    by (simp add: session_defs session_sel arena_simps)
  have nodigit: "stoi ''abc'' = Inl InvalidArgument"
    by (simp add: stoi_simps)
  have facts:
    "skill arenaTM (world warrior_session) (player arenaTM (world warrior_session)) ''bomb'' = Some 0"
    "usable arenaTM (world warrior_session) 0"
    "target arenaTM (world warrior_session) 0 = SINGLE"
    by (simp_all add: session_defs session_sel arena_simps)
  have "AttackCommand_exec arenaTM warrior_session [''attack'', ''abc''] =
        (Returns True, print warrior_session [S ''I don't understand who you try to attack.''])"
    using no_digits_diagnostic [OF alive nodigit, of "''attack''" "''bomb''"]
    unfolding Let_def by blast
  moreover have "UseCommand_exec arenaTM warrior_session [''use'', ''bomb'', ''abc''] =
        (Returns True,
         print warrior_session [S ''I don't understand who you're trying to attack.''])"
    using no_digits_diagnostic [OF alive nodigit, of "''use''" "''bomb''"] facts
    unfolding Let_def by blast
  ultimately show ?thesis
    using alive nodigit facts by simp
qed

text \<open>
  The argument \<^verbatim>\<open>1x\<close> is not a number, yet \<^verbatim>\<open>std::stoi\<close> reads the index 1 from it:
  \<^verbatim>\<open>attack 1x\<close> prints no diagnostic and attacks the character 1.
\<close>

theorem trailing_text_counterexample:
  "\<not> isdigit (CHR ''x'')
   \<and> isAlive arenaTM (world mage_session) (player arenaTM (world mage_session))
   \<and> fst (AttackCommand_exec arenaTM mage_session [''attack'', ''1x'']) = Returns True
   \<and> printed (snd (AttackCommand_exec arenaTM mage_session [''attack'', ''1x''])) = []
   \<and> calls (snd (AttackCommand_exec arenaTM mage_session [''attack'', ''1x''])) =
        [CallAttack 0 1, CallNextTurn]
   \<and> hp arenaTM (world mage_session) 1 = 5
   \<and> hp arenaTM (world (snd (AttackCommand_exec arenaTM mage_session [''attack'', ''1x'']))) 1 = 2"
  by (simp add: session_defs session_sel arena_simps exec_simps stoi_simps)

text \<open>
  C10. An index argument that \<^verbatim>\<open>std::stoi\<close> converts to a negative integer, given by a
  living player in a node whose roster has at most \<open>2 ^ 31\<close> characters, where
  \<^verbatim>\<open>characterAt\<close> yields no character at a position beyond the roster (spec 4.2). The
  unsigned index is at least \<open>2 ^ 31\<close>, the lookup yields no character, and attack, and
  use with an owned, usable skill of the single-target mode, print the invalid-target
  message and return true; the session is otherwise unchanged.
\<close>

theorem negative_index_invalid:
  assumes "isAlive tm (world s) (player tm (world s))"
      and "stoi a = Inr v" and "v < 0"
      and "\<forall>i \<ge> length (characters tm (world s) (node tm (world s) (player tm (world s)))).
             characterAt tm (world s) (node tm (world s) (player tm (world s))) i = None"
      and "length (characters tm (world s) (node tm (world s) (player tm (world s)))) \<le> 2 ^ 31"
  shows "let w = world s; p = player tm w in
           2 ^ 31 \<le> to_unsigned v
         \<and> characterAt tm w (node tm w p) (to_unsigned v) = None
         \<and> AttackCommand_exec tm s [cmd, a] = (Returns True, print s [S ''Invalid target.''])
         \<and> (\<forall>sk. skill tm w p nm = Some sk \<and> usable tm w sk \<and> target tm w sk = SINGLE \<longrightarrow>
               UseCommand_exec tm s [cmd, nm, a] = (Returns True, print s [S ''Invalid target.'']))"
proof -
  have big: "2 ^ 31 \<le> to_unsigned v"
    using assms(2,3) by (rule to_unsigned_negative)
  with assms(5) have "length (characters tm (world s) (node tm (world s) (player tm (world s))))
      \<le> to_unsigned v"
    by simp
  with assms(4) have none:
    "characterAt tm (world s) (node tm (world s) (player tm (world s))) (to_unsigned v) = None"
    by blast
  with big assms(1,2) show ?thesis
    by (auto simp add: AttackCommand_exec_def UseCommand_exec_def UseCommand_targets_def Let_def)
qed

theorem negative_index_invalid_witness:
  "isAlive arenaTM (world warrior_session) (player arenaTM (world warrior_session))
   \<and> stoi ''-1'' = Inr (- 1) \<and> (- 1 :: int) < 0
   \<and> length (characters arenaTM (world warrior_session)
              (node arenaTM (world warrior_session) (player arenaTM (world warrior_session)))) = 4
   \<and> to_unsigned (- 1) = 4294967295
   \<and> characterAt arenaTM (world warrior_session)
        (node arenaTM (world warrior_session) (player arenaTM (world warrior_session)))
        4294967295 = None
   \<and> AttackCommand_exec arenaTM warrior_session [''attack'', ''-1''] =
        (Returns True, print warrior_session [S ''Invalid target.''])
   \<and> UseCommand_exec arenaTM warrior_session [''use'', ''bomb'', ''-1''] =
        (Returns True, print warrior_session [S ''Invalid target.''])"
proof -
  have alive: "isAlive arenaTM (world warrior_session) (player arenaTM (world warrior_session))"
    by (simp add: session_defs session_sel arena_simps)
  have parsed: "stoi ''-1'' = Inr (- 1)"
    by (simp add: stoi_simps)
  have negative: "(- 1 :: int) < 0"
    by simp
  have beyond: "\<forall>i \<ge> length (characters arenaTM (world warrior_session)
                     (node arenaTM (world warrior_session) (player arenaTM (world warrior_session)))).
         characterAt arenaTM (world warrior_session)
           (node arenaTM (world warrior_session) (player arenaTM (world warrior_session))) i = None"
    by (simp add: session_defs session_sel arena_simps)
  have small: "length (characters arenaTM (world warrior_session)
              (node arenaTM (world warrior_session) (player arenaTM (world warrior_session)))) \<le> 2 ^ 31"
    by (simp add: session_defs session_sel arena_simps)
  have facts:
    "skill arenaTM (world warrior_session) (player arenaTM (world warrior_session)) ''bomb'' = Some 0"
    "usable arenaTM (world warrior_session) 0"
    "target arenaTM (world warrior_session) 0 = SINGLE"
    by (simp_all add: session_defs session_sel arena_simps)
  have wraps: "to_unsigned (- 1) = 4294967295"
    by (simp add: to_unsigned_def)
  have roster: "length (characters arenaTM (world warrior_session)
              (node arenaTM (world warrior_session) (player arenaTM (world warrior_session)))) = 4"
    by (simp add: session_defs session_sel arena_simps)
  have absent: "characterAt arenaTM (world warrior_session)
        (node arenaTM (world warrior_session) (player arenaTM (world warrior_session)))
        4294967295 = None"
    by (simp add: session_defs session_sel arena_simps)
  have "AttackCommand_exec arenaTM warrior_session [''attack'', ''-1''] =
        (Returns True, print warrior_session [S ''Invalid target.''])"
    using negative_index_invalid [OF alive parsed negative beyond small, of "''attack''" "''bomb''"]
    unfolding Let_def by blast
  moreover have "UseCommand_exec arenaTM warrior_session [''use'', ''bomb'', ''-1''] =
        (Returns True, print warrior_session [S ''Invalid target.''])"
    using negative_index_invalid [OF alive parsed negative beyond small, of "''use''" "''bomb''"] facts
    unfolding Let_def by blast
  ultimately show ?thesis
    using alive parsed negative roster wraps absent by simp
qed

end
